theory Spec2Isabelle
  imports Complex_Main "HOL-Library.Multiset"
begin

section \<open>Values of the host language\<close>

text \<open>
  A JavaScript number is idealised as a real: rounding, \<open>NaN\<close> and the infinities are
  outside the model. A value of type \<open>number | undefined\<close> is a \<open>real option\<close>, with
  \<open>None\<close> for \<open>undefined\<close>.

  A position of an array is a hole (no property at that index), an element that is
  \<open>undefined\<close>, or an element with a value. A hole and an \<open>undefined\<close> element both
  read as \<open>undefined\<close>, but \<open>Array.prototype.map\<close> skips the hole and visits the element.
\<close>

datatype 'a slot = Hole | Undefined | Val 'a

type_synonym 'a js_array = "'a slot list"

text \<open>What a position reads as, and the element a value is stored as.\<close>

fun read :: "'a slot \<Rightarrow> 'a option" where
  "read Hole = None"
| "read Undefined = None"
| "read (Val x) = Some x"

fun of_option :: "'a option \<Rightarrow> 'a slot" where
  "of_option None = Undefined"
| "of_option (Some x) = Val x"

text \<open>Truthiness of a \<open>number | undefined\<close>: \<open>undefined\<close> and \<open>0\<close> are falsy.\<close>

definition truthy :: "real option \<Rightarrow> bool" where
  "truthy v = (case v of None \<Rightarrow> False | Some x \<Rightarrow> x \<noteq> 0)"

text \<open>\<open>xs[i]\<close>: a read past the end gives \<open>undefined\<close>.\<close>

definition array_get :: "'a js_array \<Rightarrow> nat \<Rightarrow> 'a option" where
  "array_get xs i = (if i < length xs then read (xs ! i) else None)"

text \<open>\<open>xs[i] = v\<close>: a write past the end extends the array, leaving holes before \<open>i\<close>.\<close>

definition array_set :: "'a js_array \<Rightarrow> nat \<Rightarrow> 'a option \<Rightarrow> 'a js_array" where
  "array_set xs i v =
     (if i < length xs then xs[i := of_option v]
      else xs @ replicate (i - length xs) Hole @ [of_option v])"

text \<open>\<open>[...xs]\<close>: the copy has an \<open>undefined\<close> element where \<open>xs\<close> has a hole.\<close>

definition spread :: "'a js_array \<Rightarrow> 'a js_array" where
  "spread xs = map (\<lambda>s. of_option (read s)) xs"

text \<open>
  \<open>xs.map(f)\<close>: the callback gets the element and its index; a hole is not visited and
  stays a hole in the result.
\<close>

definition js_map :: "('a option \<Rightarrow> nat \<Rightarrow> 'b option) \<Rightarrow> 'a js_array \<Rightarrow> 'b js_array" where
  "js_map f xs =
     map (\<lambda>(i, s). case s of Hole \<Rightarrow> Hole | _ \<Rightarrow> of_option (f (read s) i)) (enumerate 0 xs)"

text \<open>
  \<open>ToIntegerOrInfinity\<close> on the \<open>number | undefined\<close> indices of a Sortable event:
  \<open>undefined\<close> becomes \<open>0\<close>, an integer is itself.
\<close>

definition toInteger :: "int option \<Rightarrow> int" where
  "toInteger v = (case v of None \<Rightarrow> 0 | Some n \<Rightarrow> n)"

text \<open>
  \<open>Array.prototype.splice(start, deleteCount, ...items)\<close>: a negative \<open>start\<close> counts
  from the end, \<open>start\<close> and \<open>deleteCount\<close> are clamped to the array; the result is the
  removed positions and the array after the call. Holes move and are removed as holes.
\<close>

definition actualStart :: "nat \<Rightarrow> int \<Rightarrow> nat" where
  "actualStart len start =
     nat (if start < 0 then max (int len + start) 0 else min start (int len))"

definition splice :: "'a js_array \<Rightarrow> int \<Rightarrow> int \<Rightarrow> 'a js_array \<Rightarrow> 'a js_array \<times> 'a js_array" where
  "splice xs start deleteCount items =
     (let a = actualStart (length xs) start;
          actualDeleteCount = nat (min (max deleteCount 0) (int (length xs) - int a))
      in (take actualDeleteCount (drop a xs),
          take a xs @ items @ drop (a + actualDeleteCount) xs))"

section \<open>The data model\<close>

text \<open>
  Modelled from the spec: the \<open>Column\<close> type of \<open>types.ts\<close>, which is not among the
  sources; only the fields the width model reads are kept, with their optionality.
\<close>

record column =
  field :: string
  label :: string
  minWidth :: "real option"
  maxWidth :: "real option"

text \<open>
  The state of a \<open>DataGrid\<close>. \<open>boundingWidth\<close> is what
  \<open>getBoundingClientRect().width\<close> returns for the grid; \<open>sortableColumns\<close> and
  \<open>sortableRows\<close> are references to Sortable instances in the store of the world below.
  Rows are opaque to the grid, so their type is a parameter.
\<close>

record 'r data_grid =
  columns :: "column js_array"
  rows :: "'r js_array"
  reorderable :: "bool option"
  gridTemplateColumns :: "real js_array"
  boundingWidth :: real
  sortableColumns :: "nat option"
  sortableRows :: "nat option"

section \<open>Column widths\<close>

text \<open>
  Modelled from the spec: \<open>pixelsToPercentOfWidth\<close> of \<open>utils/shared.ts\<close>, which is not
  among the sources. The spec gives \<open>(px / gridWidthPx) * 100\<close>, and \<open>0\<close> for a grid of
  width \<open>0\<close>.
\<close>

definition pixelsToPercentOfWidth :: "real \<Rightarrow> real \<Rightarrow> real" where
  "pixelsToPercentOfWidth px gridWidthPx =
     (if gridWidthPx = 0 then 0 else (px / gridWidthPx) * 100)"

text \<open>\<open>c?.minWidth\<close> on an element of \<open>columns\<close> that may be \<open>undefined\<close>.\<close>

definition opt_minWidth :: "column option \<Rightarrow> real option" where
  "opt_minWidth c = (case c of None \<Rightarrow> None | Some col \<Rightarrow> minWidth col)"

text \<open>
  The callback that \<open>initializeCellWidths\<close> maps over \<open>columns\<close>; it reads the widths
  stored before the call.
\<close>

definition cellWidth :: "'r data_grid \<Rightarrow> column option \<Rightarrow> nat \<Rightarrow> real option" where
  "cellWidth g c index =
     (let existingWidth =
            (if length (gridTemplateColumns g) > 1
             then array_get (gridTemplateColumns g) index else None)
      in if truthy existingWidth then existingWidth
         else (case opt_minWidth c of
                 Some m \<Rightarrow>
                   if m \<noteq> 0 then Some (pixelsToPercentOfWidth m (boundingWidth g))
                   else Some (100 / real (length (columns g)) - 1)
               | None \<Rightarrow> Some (100 / real (length (columns g)) - 1)))"

text \<open>
  \<open>initializeCellWidths\<close>. The custom property \<open>--grid-template-columns\<close> that
  \<open>handleGridTemplateColumnsChange\<close> then writes is a rendering of
  \<open>gridTemplateColumns\<close> and is not part of the state.
\<close>

definition initializeCellWidths :: "'r data_grid \<Rightarrow> 'r data_grid" where
  "initializeCellWidths g =
     g\<lparr>gridTemplateColumns := js_map (cellWidth g) (columns g)\<rparr>"

text \<open>
  \<open>handleColumnsChange\<close>, the watcher of \<open>columns\<close>. An array is truthy, so the test
  \<open>this.columns\<close> of the source holds for every value of the declared type.
\<close>

definition handleColumnsChange :: "'r data_grid \<Rightarrow> 'r data_grid" where
  "handleColumnsChange g =
     (if length (gridTemplateColumns g) \<noteq> length (columns g)
      then initializeCellWidths g else g)"

text \<open>
  Modelled from the spec: the \<open>watch\<close> decorator of \<open>utils/watch.ts\<close>, which is not among
  the sources. The spec has each watcher triggered by a change of the watched property, so
  a write runs the handler when it changes the value. Assigning \<open>columns\<close> wholesale
  installs a new array, which is a change.
\<close>

definition set_columns :: "column js_array \<Rightarrow> 'r data_grid \<Rightarrow> 'r data_grid" where
  "set_columns cs g = handleColumnsChange (g\<lparr>columns := cs\<rparr>)"

section \<open>A column element and its resize gesture\<close>

text \<open>
  The state of a \<open>DataGridColumn\<close>. \<open>elem_minWidth\<close> is the element's own \<open>minWidth\<close>
  property (renamed apart from the field of \<open>Column\<close>), \<open>resizing\<close> is \<open>_resizing\<close>,
  \<open>offsetWidth\<close> is the rendered width of the element in pixels.
\<close>

record data_grid_column =
  index :: nat
  elem_minWidth :: "real option"
  width :: "real option"
  resizing :: bool
  offsetWidth :: real

text \<open>
  The element that \<open>render\<close> of the grid creates for the column at \<open>idx\<close>:
  \<open><data-grid-column .index=${idx}>\<close>. Only \<open>index\<close> is bound; \<open>minWidth\<close> and \<open>width\<close>
  start unset, whatever the \<open>Column\<close> at \<open>idx\<close> says. The layout gives the element its
  rendered width.
\<close>

definition rendered_column :: "nat \<Rightarrow> real \<Rightarrow> data_grid_column" where
  "rendered_column idx px =
     \<lparr>index = idx, elem_minWidth = None, width = None, resizing = False, offsetWidth = px\<rparr>"

text \<open>
  What a column element acts on: itself, the grid it consumes from the context
  (\<open>None\<close> when there is no enclosing grid) and the console.
\<close>

record 'r column_state =
  el :: data_grid_column
  grid :: "'r data_grid option"
  console :: "string list"

text \<open>The getter \<open>gridWidth\<close>; \<open>console.warn\<close> appends to the console.\<close>

definition gridWidth :: "'r column_state \<Rightarrow> real \<times> 'r column_state" where
  "gridWidth st =
     (case grid st of
        Some g \<Rightarrow> (boundingWidth g, st)
      | None \<Rightarrow>
          (0, st\<lparr>console := console st @ [''DataGridColumn must be a child of DataGrid'']\<rparr>))"

text \<open>
  \<open>handleWidthChange\<close>, the watcher of \<open>width\<close>: a copy of the grid's widths with the
  slot of this column overwritten is assigned to the grid. (\<open>dataset.width\<close> is an
  attribute of the rendering.)
\<close>

definition writeSlot :: "nat \<Rightarrow> real option \<Rightarrow> 'r data_grid \<Rightarrow> 'r data_grid" where
  "writeSlot i v g =
     g\<lparr>gridTemplateColumns := array_set (spread (gridTemplateColumns g)) i v\<rparr>"

definition handleWidthChange :: "'r column_state \<Rightarrow> 'r column_state" where
  "handleWidthChange st =
     (case grid st of
        Some g \<Rightarrow> st\<lparr>grid := Some (writeSlot (index (el st)) (width (el st)) g)\<rparr>
      | None \<Rightarrow> st)"

text \<open>A write of \<open>width\<close>, with its watcher.\<close>

definition set_width :: "real option \<Rightarrow> 'r column_state \<Rightarrow> 'r column_state" where
  "set_width v st =
     (if width (el st) = v then st
      else handleWidthChange (st\<lparr>el := (el st)\<lparr>width := v\<rparr>\<rparr>))"

text \<open>\<open>firstUpdated\<close>: the column takes the width of its slot.\<close>

definition firstUpdated :: "'r column_state \<Rightarrow> 'r column_state" where
  "firstUpdated st =
     (case grid st of
        Some g \<Rightarrow> set_width (array_get (gridTemplateColumns g) (index (el st))) st
      | None \<Rightarrow> st)"

text \<open>\<open>this.minWidth || 60\<close>: an unset or zero \<open>minWidth\<close> gives 60.\<close>

definition minWidth_or_60 :: "real option \<Rightarrow> real" where
  "minWidth_or_60 m = (if truthy m then (case m of Some x \<Rightarrow> x | None \<Rightarrow> 60) else 60)"

text \<open>
  \<open>onResizePointerDown\<close> captures \<open>startX\<close> and \<open>startWidth\<close> for the two listeners it
  installs and sets \<open>_resizing\<close>; the captured pair is returned with the state.
\<close>

definition onResizePointerDown :: "real \<Rightarrow> 'r column_state \<Rightarrow> (real \<times> real) \<times> 'r column_state" where
  "onResizePointerDown clientX st =
     (let startX = clientX;
          startWidth = (if offsetWidth (el st) \<noteq> 0 then offsetWidth (el st) else 0)
      in ((startX, startWidth), st\<lparr>el := (el st)\<lparr>resizing := True\<rparr>\<rparr>))"

definition onPointerMove :: "real \<times> real \<Rightarrow> real \<Rightarrow> 'r column_state \<Rightarrow> 'r column_state" where
  "onPointerMove captured clientX st =
     (let (startX, startWidth) = captured
      in if resizing (el st)
         then (let px = max (minWidth_or_60 (elem_minWidth (el st))) (startWidth + clientX - startX);
                   (gw, st1) = gridWidth st
               in set_width (Some (pixelsToPercentOfWidth px gw)) st1)
         else st)"

definition onPointerUp :: "'r column_state \<Rightarrow> 'r column_state" where
  "onPointerUp st = st\<lparr>el := (el st)\<lparr>resizing := False\<rparr>\<rparr>"

text \<open>
  One step of an interactive resize: the pointer goes down on the handle at \<open>x0\<close> and
  moves to \<open>x1\<close>.
\<close>

definition resize :: "real \<Rightarrow> real \<Rightarrow> 'r column_state \<Rightarrow> 'r column_state" where
  "resize x0 x1 st =
     (let (captured, st1) = onResizePointerDown x0 st in onPointerMove captured x1 st1)"

section \<open>Reordering\<close>

text \<open>
  The statement both \<open>onEnd\<close> handlers run on their backing array:
  \<open>xs.splice(newIndex, 0, xs.splice(oldIndex, 1)[0])\<close>. The inner call runs first; what
  its result reads at \<open>0\<close> (\<open>undefined\<close> when nothing was removed, or a hole was) is the
  element the outer call inserts.
\<close>

definition reorder :: "'a js_array \<Rightarrow> int option \<Rightarrow> int option \<Rightarrow> 'a js_array" where
  "reorder xs oldIndex newIndex =
     (let (removed, xs1) = splice xs (toInteger oldIndex) 1 [];
          (unused, xs2) = splice xs1 (toInteger newIndex) 0 [of_option (array_get removed 0)]
      in xs2)"

text \<open>
  The \<open>onEnd\<close> handlers of the two coordinators. Putting the dragged node back after
  \<open>colBefore\<close> or \<open>rowBefore\<close> concerns the document only.
\<close>

definition columns_onEnd :: "int option \<Rightarrow> int option \<Rightarrow> 'r data_grid \<Rightarrow> 'r data_grid" where
  "columns_onEnd oldIndex newIndex g = g\<lparr>columns := reorder (columns g) oldIndex newIndex\<rparr>"

definition rows_onEnd :: "int option \<Rightarrow> int option \<Rightarrow> 'r data_grid \<Rightarrow> 'r data_grid" where
  "rows_onEnd oldIndex newIndex g = g\<lparr>rows := reorder (rows g) oldIndex newIndex\<rparr>"

text \<open>
  The spec's words for a drop: remove the element at \<open>fromIndex\<close>, insert it at
  \<open>toIndex\<close>. The element at an index is what the array reads there.
\<close>

definition element_at :: "'a js_array \<Rightarrow> nat \<Rightarrow> 'a slot" where
  "element_at xs i = of_option (array_get xs i)"

definition remove_insert :: "'a js_array \<Rightarrow> nat \<Rightarrow> nat \<Rightarrow> 'a js_array" where
  "remove_insert xs fromIndex toIndex =
     (let rest = take fromIndex xs @ drop (Suc fromIndex) xs
      in take toIndex rest @ [element_at xs fromIndex] @ drop toIndex rest)"

section \<open>The reorder coordinators\<close>






















section \<open>The statements of the specification\<close>

text \<open>The equal default share of a grid of \<open>N\<close> columns, \<open>100/N - 1\<close>.\<close>

definition default_share :: "'r data_grid \<Rightarrow> real" where
  "default_share g = 100 / real (length (columns g)) - 1"

text \<open>
  The width the specification gives column \<open>i\<close> when widths are recomputed: the prior
  width at \<open>i\<close> if there is one, else the column's \<open>minWidth\<close> in percent if it is set,
  else the default share.
\<close>

definition claimed_width :: "'r data_grid \<Rightarrow> nat \<Rightarrow> real" where
  "claimed_width g i =
     (case array_get (gridTemplateColumns g) i of
        Some w \<Rightarrow> w
      | None \<Rightarrow>
          (case opt_minWidth (array_get (columns g) i) of
             Some m \<Rightarrow> pixelsToPercentOfWidth m (boundingWidth g)
           | None \<Rightarrow> default_share g))"

text \<open>
  The same with the two restrictions of the source: a zero is read as an absent value,
  for the prior width and for \<open>minWidth\<close>, and prior widths count only when there is
  more than one of them.
\<close>

definition nonzero :: "real option \<Rightarrow> real option" where
  "nonzero v = (if truthy v then v else None)"

definition prior_width :: "'r data_grid \<Rightarrow> nat \<Rightarrow> real option" where
  "prior_width g i =
     (if 1 < length (gridTemplateColumns g)
      then nonzero (array_get (gridTemplateColumns g) i) else None)"

definition amended_width :: "'r data_grid \<Rightarrow> nat \<Rightarrow> real" where
  "amended_width g i =
     (case prior_width g i of
        Some w \<Rightarrow> w
      | None \<Rightarrow>
          (case nonzero (opt_minWidth (array_get (columns g) i)) of
             Some m \<Rightarrow> pixelsToPercentOfWidth m (boundingWidth g)
           | None \<Rightarrow> default_share g))"

text \<open>
  The pixel width of a resize from \<open>startWidthPx\<close> by \<open>pointerDeltaPx\<close>, with the floor
  of the source, \<open>minWidth || 60\<close>.
\<close>

definition resize_px :: "real option \<Rightarrow> real \<Rightarrow> real \<Rightarrow> real" where
  "resize_px m startWidthPx pointerDeltaPx =
     max (minWidth_or_60 m) (startWidthPx + pointerDeltaPx)"

section \<open>Example grids and sessions\<close>

definition col :: "string \<Rightarrow> real option \<Rightarrow> column slot" where
  "col name m = Val \<lparr>field = name, label = name, minWidth = m, maxWidth = None\<rparr>"

definition grid_of :: "column js_array \<Rightarrow> real js_array \<Rightarrow> real \<Rightarrow> nat data_grid" where
  "grid_of cs ws px =
     \<lparr>columns = cs, rows = [], reorderable = Some True, gridTemplateColumns = ws,
      boundingWidth = px, sortableColumns = None, sortableRows = None\<rparr>"

definition column_of :: "nat \<Rightarrow> real option \<Rightarrow> real option \<Rightarrow> real \<Rightarrow> data_grid_column" where
  "column_of i m w px =
     \<lparr>index = i, elem_minWidth = m, width = w, resizing = False, offsetWidth = px\<rparr>"

definition column_in :: "data_grid_column \<Rightarrow> nat data_grid option \<Rightarrow> nat column_state" where
  "column_in e g = \<lparr>el = e, grid = g, console = []\<rparr>"

definition scenario_D_grid :: "nat data_grid" where
  "scenario_D_grid =
     (grid_of [col ''A'' None, col ''B'' None, col ''C'' None, col ''D'' None] [] 1000)
       \<lparr>rows := [Val 1, Val 2, Val 3]\<rparr>"

text \<open>
  A grid 1000 pixels wide whose first column is configured with \<open>minWidth = 200\<close>, after
  its widths were initialised, and the element the grid renders for that column, 200
  pixels wide, after its first update.
\<close>

definition minWidth_200_grid :: "nat data_grid" where
  "minWidth_200_grid =
     set_columns [col ''a'' (Some 200), col ''b'' None] (grid_of [] [] 1000)"

definition minWidth_200_column :: "nat column_state" where
  "minWidth_200_column = firstUpdated (column_in (rendered_column 0 200) (Some minWidth_200_grid))"

text \<open>A grid whose rows are a sparse array, with a hole at index 1.\<close>

definition sparse_rows_grid :: "nat data_grid" where
  "sparse_rows_grid = (grid_of [col ''A'' None] [] 1000)\<lparr>rows := [Val 1, Hole, Val 2]\<rparr>"





section \<open>Arrays\<close>

lemma read_of_option: "read (of_option v) = v"
  by (cases v) simp_all

lemma of_option_read: "s \<noteq> Hole \<Longrightarrow> of_option (read s) = s"
  by (cases s) simp_all

lemma array_get_array_set: "array_get (array_set xs i v) i = v"
  by (simp add: array_get_def array_set_def nth_append read_of_option)

lemma element_at_not_hole:
  "i < length xs \<Longrightarrow> xs ! i \<noteq> Hole \<Longrightarrow> element_at xs i = xs ! i"
  by (simp add: element_at_def array_get_def of_option_read)

lemma actualStart_in_range: "j \<le> len \<Longrightarrow> actualStart len (int j) = j"
  by (simp add: actualStart_def)

lemma actualStart_beyond: "len \<le> j \<Longrightarrow> actualStart len (int j) = len"
  by (simp add: actualStart_def)

lemma splice_remove:
  assumes "i < length xs"
  shows "splice xs (int i) 1 [] = ([xs ! i], take i xs @ drop (Suc i) xs)"
proof -
  have a: "actualStart (length xs) (int i) = i"
    using assms by (simp add: actualStart_in_range)
  have d: "nat (min (max 1 0) (int (length xs) - int i)) = 1"
    using assms by simp
  have "take 1 (drop i xs) = [xs ! i]"
    using assms by (simp add: Cons_nth_drop_Suc [symmetric])
  then show ?thesis
    using a d by (simp add: splice_def Let_def)
qed

lemma splice_remove_nothing:
  assumes "length xs \<le> i"
  shows "splice xs (int i) 1 [] = ([], xs)"
  using assms by (simp add: splice_def Let_def actualStart_beyond)

lemma splice_insert:
  "splice ys start 0 [v] =
     ([], take (actualStart (length ys) start) ys @ [v] @ drop (actualStart (length ys) start) ys)"
  by (simp add: splice_def Let_def)

section \<open>Properties of a drop\<close>

lemma reorder_from_in_range:
  assumes "i < length xs"
  shows "reorder xs (Some (int i)) newIndex =
     (let rest = take i xs @ drop (Suc i) xs;
          a = actualStart (length rest) (toInteger newIndex)
      in take a rest @ [element_at xs i] @ drop a rest)"
  using assms
  by (simp add: reorder_def toInteger_def splice_remove splice_insert array_get_def
      element_at_def Let_def)

lemma reorder_from_beyond:
  assumes "length xs \<le> i"
  shows "reorder xs (Some (int i)) newIndex =
     take (actualStart (length xs) (toInteger newIndex)) xs @ [Undefined] @
     drop (actualStart (length xs) (toInteger newIndex)) xs"
  using assms
  by (simp add: reorder_def toInteger_def splice_remove_nothing splice_insert array_get_def)

lemma reorder_remove_insert:
  assumes "i < length xs" and "j < length xs"
  shows "reorder xs (Some (int i)) (Some (int j)) = remove_insert xs i j"
proof -
  have "length (take i xs @ drop (Suc i) xs) = length xs - 1"
    using assms by simp
  moreover have "j \<le> length xs - 1" using assms by simp
  ultimately have "actualStart (length (take i xs @ drop (Suc i) xs)) (int j) = j"
    by (simp only: actualStart_in_range)
  then show ?thesis
    using assms(1)
    by (simp only: reorder_from_in_range remove_insert_def Let_def toInteger_def option.case)
qed

lemma reorder_to_beyond:
  assumes "i < length xs" and "length xs \<le> j"
  shows "reorder xs (Some (int i)) (Some (int j)) =
           take i xs @ drop (Suc i) xs @ [element_at xs i]"
proof -
  have "length (take i xs @ drop (Suc i) xs) \<le> j" using assms by simp
  then have "actualStart (length (take i xs @ drop (Suc i) xs)) (int j) =
             length (take i xs @ drop (Suc i) xs)"
    by (rule actualStart_beyond)
  then show ?thesis
    using assms(1) by (simp add: reorder_from_in_range Let_def toInteger_def)
qed

lemma mset_remove_nth:
  assumes "i < length xs"
  shows "mset (take i xs @ drop (Suc i) xs) + {#xs ! i#} = mset xs"
proof -
  from assms have "xs = take i xs @ xs ! i # drop (Suc i) xs" by (rule id_take_nth_drop)
  then have "mset xs = mset (take i xs @ xs ! i # drop (Suc i) xs)" by simp
  then show ?thesis by simp
qed

lemma mset_insert_at: "mset (take a ys @ [v] @ drop a ys) = mset ys + {#v#}"
proof -
  have "mset (take a ys) + mset (drop a ys) = mset ys"
    by (metis append_take_drop_id mset_append)
  then show ?thesis by simp
qed

lemma mset_reorder:
  assumes "i < length xs" and "xs ! i \<noteq> Hole"
  shows "mset (reorder xs (Some (int i)) newIndex) = mset xs"
proof -
  have e: "element_at xs i = xs ! i"
    using assms by (rule element_at_not_hole)
  show ?thesis
    using assms(1)
    by (simp only: reorder_from_in_range Let_def mset_insert_at e mset_remove_nth)
qed

lemma length_reorder:
  assumes "i < length xs"
  shows "length (reorder xs (Some (int i)) newIndex) = length xs"
proof -
  have "size (mset (reorder xs (Some (int i)) newIndex)) =
        size (mset (take i xs @ drop (Suc i) xs) + {#element_at xs i#})"
    using assms by (simp only: reorder_from_in_range Let_def mset_insert_at)
  also have "\<dots> = size (mset (take i xs @ drop (Suc i) xs) + {#xs ! i#})"
    by simp
  also have "\<dots> = size (mset xs)"
    using assms by (simp only: mset_remove_nth)
  finally show ?thesis by simp
qed

lemma onEnd_simps:
  "columns (columns_onEnd oldIndex newIndex g) = reorder (columns g) oldIndex newIndex"
  "rows (columns_onEnd oldIndex newIndex g) = rows g"
  "gridTemplateColumns (columns_onEnd oldIndex newIndex g) = gridTemplateColumns g"
  "rows (rows_onEnd oldIndex newIndex g) = reorder (rows g) oldIndex newIndex"
  "columns (rows_onEnd oldIndex newIndex g) = columns g"
  "gridTemplateColumns (rows_onEnd oldIndex newIndex g) = gridTemplateColumns g"
  by (simp_all add: columns_onEnd_def rows_onEnd_def)

section \<open>Reorder drops\<close>

text \<open>
  Claim C3. On each axis by itself, a drop with both indices inside the backing sequence
  commits one removal and one insertion: the element at \<open>fromIndex\<close> is taken out and
  put back at \<open>toIndex\<close>. The element put back is the one that was at \<open>fromIndex\<close>
  whenever that position is not a hole.
\<close>

theorem drop_is_remove_insert:
  "(fromIndex < length (columns g) \<and> toIndex < length (columns g) \<longrightarrow>
      columns (columns_onEnd (Some (int fromIndex)) (Some (int toIndex)) g) =
        remove_insert (columns g) fromIndex toIndex) \<and>
   (fromRow < length (rows g) \<and> toRow < length (rows g) \<longrightarrow>
      rows (rows_onEnd (Some (int fromRow)) (Some (int toRow)) g) =
        remove_insert (rows g) fromRow toRow) \<and>
   (k < length xs \<and> xs ! k \<noteq> Hole \<longrightarrow> element_at xs k = xs ! k)"
  by (simp add: onEnd_simps reorder_remove_insert element_at_not_hole)

text \<open>
  Scenario D: moving index 2 to index 0 in \<open>[A, B, C, D]\<close> gives \<open>[C, A, B, D]\<close>, which
  is not the exchange of the two positions, and that on a grid without rows. Moving row 0
  to index 2 shifts the rows between.
\<close>

theorem drop_is_remove_insert_witness:
  "(2::nat) < length (columns (grid_of [col ''A'' None, col ''B'' None, col ''C'' None,
      col ''D'' None] [] 1000)) \<and>
   rows (grid_of [col ''A'' None, col ''B'' None, col ''C'' None, col ''D'' None] [] 1000) = [] \<and>
   columns (columns_onEnd (Some 2) (Some 0)
      (grid_of [col ''A'' None, col ''B'' None, col ''C'' None, col ''D'' None] [] 1000)) =
     [col ''C'' None, col ''A'' None, col ''B'' None, col ''D'' None] \<and>
   columns (columns_onEnd (Some 2) (Some 0)
      (grid_of [col ''A'' None, col ''B'' None, col ''C'' None, col ''D'' None] [] 1000)) \<noteq>
     [col ''C'' None, col ''B'' None, col ''A'' None, col ''D'' None] \<and>
   (0::nat) < length (rows scenario_D_grid) \<and>
   rows (rows_onEnd (Some 0) (Some 2) scenario_D_grid) = [Val 2, Val 3, Val 1]"
proof -
  let ?g = "grid_of [col ''A'' None, col ''B'' None, col ''C'' None, col ''D'' None] [] 1000"
  have c: "columns (columns_onEnd (Some 2) (Some 0) ?g) =
      [col ''C'' None, col ''A'' None, col ''B'' None, col ''D'' None]"
    using drop_is_remove_insert [of 2 ?g 0 0 0 0 "[]"]
    by (simp add: grid_of_def remove_insert_def element_at_def array_get_def col_def)
  have r: "rows (rows_onEnd (Some 0) (Some 2) scenario_D_grid) = [Val 2, Val 3, Val 1]"
    using drop_is_remove_insert [of 0 scenario_D_grid 0 0 2 0 "[]"]
    by (simp add: scenario_D_grid_def grid_of_def remove_insert_def element_at_def
        array_get_def)
  show ?thesis
    unfolding c r by (simp add: scenario_D_grid_def grid_of_def col_def)
qed

text \<open>
  Claim C4, as the code has it. No drop on one axis touches the sequence of the other
  axis or the widths, whatever indices it reports. A drop whose \<open>fromIndex\<close> lies inside
  its sequence keeps the length of the sequence, whatever \<open>toIndex\<close> is; if the position
  at \<open>fromIndex\<close> is not a hole, the sequence after the drop is a permutation of the
  sequence before: the same elements with the same multiplicities.
\<close>

theorem reorder_is_permutation:
  "rows (columns_onEnd oldIndex newIndex g) = rows g \<and>
   gridTemplateColumns (columns_onEnd oldIndex newIndex g) = gridTemplateColumns g \<and>
   columns (rows_onEnd oldIndex newIndex g) = columns g \<and>
   gridTemplateColumns (rows_onEnd oldIndex newIndex g) = gridTemplateColumns g \<and>
   (fromIndex < length (columns g) \<longrightarrow>
      length (columns (columns_onEnd (Some (int fromIndex)) newIndex g)) = length (columns g)) \<and>
   (fromIndex < length (columns g) \<and> columns g ! fromIndex \<noteq> Hole \<longrightarrow>
      mset (columns (columns_onEnd (Some (int fromIndex)) newIndex g)) = mset (columns g)) \<and>
   (fromRow < length (rows g) \<longrightarrow>
      length (rows (rows_onEnd (Some (int fromRow)) newIndex g)) = length (rows g)) \<and>
   (fromRow < length (rows g) \<and> rows g ! fromRow \<noteq> Hole \<longrightarrow>
      mset (rows (rows_onEnd (Some (int fromRow)) newIndex g)) = mset (rows g))"
  by (simp add: onEnd_simps mset_reorder length_reorder)

text \<open>
  The last column dragged to the front on a grid without rows, and the first row dropped
  at an index past the end.
\<close>

theorem reorder_is_permutation_witness:
  "(3::nat) < length (columns (grid_of [col ''A'' None, col ''B'' None, col ''C'' None,
      col ''D'' None] [Val 25, Val 25] 1000)) \<and>
   columns (grid_of [col ''A'' None, col ''B'' None, col ''C'' None, col ''D'' None]
      [Val 25, Val 25] 1000) ! 3 \<noteq> Hole \<and>
   mset (columns (columns_onEnd (Some 3) (Some 0)
      (grid_of [col ''A'' None, col ''B'' None, col ''C'' None, col ''D'' None]
         [Val 25, Val 25] 1000))) =
     mset [col ''A'' None, col ''B'' None, col ''C'' None, col ''D'' None] \<and>
   length (columns (columns_onEnd (Some 3) (Some 0)
      (grid_of [col ''A'' None, col ''B'' None, col ''C'' None, col ''D'' None]
         [Val 25, Val 25] 1000))) = 4 \<and>
   gridTemplateColumns (columns_onEnd (Some 3) (Some 0)
      (grid_of [col ''A'' None, col ''B'' None, col ''C'' None, col ''D'' None]
         [Val 25, Val 25] 1000)) = [Val 25, Val 25] \<and>
   (0::nat) < length (rows scenario_D_grid) \<and> rows scenario_D_grid ! 0 \<noteq> Hole \<and>
   mset (rows (rows_onEnd (Some 0) (Some 9) scenario_D_grid)) = mset [Val 1, Val 2, Val 3] \<and>
   length (rows (rows_onEnd (Some 0) (Some 9) scenario_D_grid)) = 3"
proof -
  let ?g = "grid_of [col ''A'' None, col ''B'' None, col ''C'' None, col ''D'' None]
      [Val 25, Val 25] 1000"
  have c: "(3::nat) < length (columns ?g)" "columns ?g ! 3 \<noteq> Hole"
    "columns ?g = [col ''A'' None, col ''B'' None, col ''C'' None, col ''D'' None]"
    "gridTemplateColumns ?g = [Val 25, Val 25]"
    by (simp_all add: grid_of_def col_def)
  have r: "(0::nat) < length (rows scenario_D_grid)" "rows scenario_D_grid ! 0 \<noteq> Hole"
    "rows scenario_D_grid = [Val 1, Val 2, Val 3]"
    by (simp_all add: scenario_D_grid_def grid_of_def)
  show ?thesis
    using c r
      reorder_is_permutation [of "Some 3" "Some 0" ?g 3 0]
      reorder_is_permutation [of "Some 0" "Some 9" scenario_D_grid 0 0]
    by simp
qed

text \<open>
  The claim as stated, for every drop, fails twice. A drop on the four columns that
  reports \<open>fromIndex = 5\<close> leaves five columns. A drop that takes the hole at index 1 of
  the rows \<open>[1, <hole>, 2]\<close> to the front leaves \<open>[undefined, 1, 2]\<close>: an \<open>undefined\<close>
  element that was not among the rows before.
\<close>

theorem reorder_length_counterexample:
  "length (columns scenario_D_grid) = 4 \<and>
   length (columns (columns_onEnd (Some 5) (Some 0) scenario_D_grid)) = 5 \<and>
   rows sparse_rows_grid = [Val 1, Hole, Val 2] \<and>
   rows (rows_onEnd (Some 1) (Some 0) sparse_rows_grid) = [Undefined, Val 1, Val 2] \<and>
   mset (rows (rows_onEnd (Some 1) (Some 0) sparse_rows_grid)) \<noteq> mset (rows sparse_rows_grid)"
proof -
  have a: "length (columns scenario_D_grid) = 4"
    "length (columns (columns_onEnd (Some 5) (Some 0) scenario_D_grid)) = 5"
    by (simp_all add: scenario_D_grid_def grid_of_def onEnd_simps reorder_def splice_def
        actualStart_def toInteger_def array_get_def)
  have b: "rows sparse_rows_grid = [Val 1, Hole, Val 2]"
    by (simp add: sparse_rows_grid_def grid_of_def)
  have c: "rows (rows_onEnd (Some 1) (Some 0) sparse_rows_grid) = [Undefined, Val 1, Val 2]"
    by (simp add: sparse_rows_grid_def grid_of_def onEnd_simps reorder_def splice_def
        actualStart_def toInteger_def array_get_def)
  have "Undefined \<in># mset [Undefined, Val (1::nat), Val 2]" by simp
  moreover have "\<not> Undefined \<in># mset [Val (1::nat), Hole, Val 2]" by simp
  ultimately have "mset [Undefined, Val (1::nat), Val 2] \<noteq> mset [Val 1, Hole, Val 2]"
    by metis
  with a b c show ?thesis by simp
qed

text \<open>
  Claim C7, as the code has it. No drop is rejected. When \<open>fromIndex\<close> is at or past the
  end of the backing sequence, nothing is removed and one \<open>undefined\<close> element is inserted
  at \<open>toIndex\<close> clamped to the sequence, so the sequence grows by one. When \<open>fromIndex\<close>
  is inside and \<open>toIndex\<close> is at or past the end, the element is moved to the end. Both
  handlers commit this on their own sequence.
\<close>

theorem out_of_range_drop:
  assumes "length xs \<le> fromIndex" and "i < length ys" and "length ys \<le> toIndex"
  shows "columns (columns_onEnd oldIndex newIndex g) = reorder (columns g) oldIndex newIndex \<and>
         rows (rows_onEnd oldIndex newIndex g) = reorder (rows g) oldIndex newIndex \<and>
         reorder xs (Some (int fromIndex)) newIndex =
           take (actualStart (length xs) (toInteger newIndex)) xs @ [Undefined] @
           drop (actualStart (length xs) (toInteger newIndex)) xs \<and>
         length (reorder xs (Some (int fromIndex)) newIndex) = Suc (length xs) \<and>
         reorder ys (Some (int i)) (Some (int toIndex)) =
           take i ys @ drop (Suc i) ys @ [element_at ys i] \<and>
         (ys ! i \<noteq> Hole \<longrightarrow>
            reorder ys (Some (int i)) (Some (int toIndex)) =
              take i ys @ drop (Suc i) ys @ [ys ! i])"
proof -
  have beyond: "reorder xs (Some (int fromIndex)) newIndex =
           take (actualStart (length xs) (toInteger newIndex)) xs @ [Undefined] @
           drop (actualStart (length xs) (toInteger newIndex)) xs"
    using assms(1) by (rule reorder_from_beyond)
  have "length (take (actualStart (length xs) (toInteger newIndex)) xs @ [Undefined] @
           drop (actualStart (length xs) (toInteger newIndex)) xs) = Suc (length xs)"
    by (simp add: min_def)
  with beyond have len: "length (reorder xs (Some (int fromIndex)) newIndex) = Suc (length xs)"
    by simp
  have to_end: "reorder ys (Some (int i)) (Some (int toIndex)) =
           take i ys @ drop (Suc i) ys @ [element_at ys i]"
    using assms(2,3) by (rule reorder_to_beyond)
  have same: "ys ! i \<noteq> Hole \<longrightarrow> element_at ys i = ys ! i"
    using assms(2) by (simp add: element_at_not_hole)
  from beyond len to_end same show ?thesis by (simp add: onEnd_simps)
qed

theorem out_of_range_drop_witness:
  "length [Val ''A'', Val ''B''] \<le> (5::nat) \<and>
   reorder [Val ''A'', Val ''B''] (Some 5) (Some 1) = [Val ''A'', Undefined, Val ''B''] \<and>
   reorder [Val ''A'', Val ''B'', Val ''C''] (Some 0) (Some 7) =
     [Val ''B'', Val ''C'', Val ''A'']"
proof -
  have a: "length [Val ''A'', Val ''B''] \<le> (5::nat)" by simp
  have b: "(0::nat) < length [Val ''A'', Val ''B'', Val ''C'']" by simp
  have c: "length [Val ''A'', Val ''B'', Val ''C''] \<le> (7::nat)" by simp
  show ?thesis
    using out_of_range_drop [OF a b c, where newIndex = "Some 1" and oldIndex = None
        and g = scenario_D_grid]
    by (auto simp: actualStart_def toInteger_def)
qed

text \<open>
  The claim as stated fails: a drop on the three rows that reports \<open>fromIndex = 3\<close> is
  not a no-op, it inserts an \<open>undefined\<close> row.
\<close>

theorem out_of_range_drop_counterexample:
  "rows scenario_D_grid = [Val 1, Val 2, Val 3] \<and>
   rows (rows_onEnd (Some 3) (Some 1) scenario_D_grid) = [Val 1, Undefined, Val 2, Val 3]"
  by (simp add: scenario_D_grid_def grid_of_def onEnd_simps reorder_def splice_def
      actualStart_def toInteger_def array_get_def)

section \<open>Width recomputation\<close>

lemma length_js_map: "length (js_map f xs) = length xs"
  by (simp add: js_map_def)

lemma nth_js_map:
  "i < length xs \<Longrightarrow>
   js_map f xs ! i = (case xs ! i of Hole \<Rightarrow> Hole | _ \<Rightarrow> of_option (f (read (xs ! i)) i))"
  by (simp add: js_map_def nth_enumerate_eq)

lemma length_initializeCellWidths:
  "length (gridTemplateColumns (initializeCellWidths g)) = length (columns g)"
  by (simp add: initializeCellWidths_def length_js_map)

lemma columns_initializeCellWidths: "columns (initializeCellWidths g) = columns g"
  by (simp add: initializeCellWidths_def)

lemma nth_initializeCellWidths:
  "i < length (columns g) \<Longrightarrow>
   gridTemplateColumns (initializeCellWidths g) ! i =
     (case columns g ! i of
        Hole \<Rightarrow> Hole
      | _ \<Rightarrow> of_option (cellWidth g (read (columns g ! i)) i))"
  by (simp add: initializeCellWidths_def nth_js_map)

lemma cellWidth_amended:
  assumes "i < length (columns g)"
  shows "cellWidth g (read (columns g ! i)) i = Some (amended_width g i)"
  using assms
  by (auto simp: cellWidth_def amended_width_def prior_width_def nonzero_def truthy_def
      array_get_def default_share_def Let_def split: option.splits)




text \<open>
  Claim C9. After the watcher of \<open>columns\<close> has run, there are as many widths as
  columns: for a wholesale assignment of \<open>columns\<close>, and for the handler run on any
  state of the grid.
\<close>

theorem widths_length_after_columns_change:
  "length (gridTemplateColumns (set_columns cs g)) = length cs \<and>
   columns (set_columns cs g) = cs \<and>
   length (gridTemplateColumns (handleColumnsChange g)) = length (columns (handleColumnsChange g))"
  by (simp add: set_columns_def handleColumnsChange_def length_initializeCellWidths
      columns_initializeCellWidths)

text \<open>
  Claim C1, as the code has it. When the number of widths differs from the number of
  columns, so that the widths are recomputed, every position \<open>i\<close> of \<open>columns\<close> that is
  not a hole gets: the prior width at \<open>i\<close> if more than one width was stored, there is
  one at \<open>i\<close> and it is not zero; otherwise the \<open>minWidth\<close> of the column in percent of
  the rendered width of the grid if \<open>minWidth\<close> is set and not zero; otherwise the default
  share \<open>100/N - 1\<close>. A hole of \<open>columns\<close> leaves a hole in the widths.
\<close>

theorem initial_width_of_each_column:
  assumes "length (gridTemplateColumns g) \<noteq> length (columns g)"
    and "i < length (columns g)"
  shows "(columns g ! i \<noteq> Hole \<longrightarrow>
            gridTemplateColumns (handleColumnsChange g) ! i = Val (amended_width g i)) \<and>
         (columns g ! i = Hole \<longrightarrow> gridTemplateColumns (handleColumnsChange g) ! i = Hole)"
proof -
  have cw: "cellWidth g (read (columns g ! i)) i = Some (amended_width g i)"
    using assms(2) by (rule cellWidth_amended)
  have "gridTemplateColumns (handleColumnsChange g) ! i =
      (case columns g ! i of
         Hole \<Rightarrow> Hole
       | _ \<Rightarrow> of_option (cellWidth g (read (columns g ! i)) i))"
    using assms by (simp add: handleColumnsChange_def nth_initializeCellWidths)
  then show ?thesis
    unfolding cw by (cases "columns g ! i") simp_all
qed

text \<open>
  Scenario A, three columns without \<open>minWidth\<close> and no prior widths; a third column of
  \<open>minWidth\<close> 200 added to a grid 1000 wide that has two widths; and a second column
  added to a grid that has one width, which is not kept.
\<close>

theorem initial_width_of_each_column_witness:
  "map (array_get (gridTemplateColumns
      (handleColumnsChange (grid_of [col ''a'' None, col ''b'' None, col ''c'' None] [] 1000))))
     [0, 1, 2] = [Some (100 / 3 - 1), Some (100 / 3 - 1), Some (100 / 3 - 1)] \<and>
   map (array_get (gridTemplateColumns
      (handleColumnsChange
         (grid_of [col ''a'' None, col ''b'' (Some 200), col ''c'' (Some 200)]
            [Val 30, Val 25] 1000))))
     [0, 1, 2] = [Some 30, Some 25, Some 20] \<and>
   map (array_get (gridTemplateColumns
      (handleColumnsChange (grid_of [col ''a'' None, col ''b'' None] [Val 50] 1000))))
     [0, 1] = [Some 49, Some 49]"
proof -
  let ?a = "grid_of [col ''a'' None, col ''b'' None, col ''c'' None] [] 1000"
  let ?b = "grid_of [col ''a'' None, col ''b'' (Some 200), col ''c'' (Some 200)]
      [Val 30, Val 25] 1000"
  let ?c = "grid_of [col ''a'' None, col ''b'' None] [Val 50] 1000"
  have la: "length (gridTemplateColumns (handleColumnsChange ?a)) = 3"
    and lb: "length (gridTemplateColumns (handleColumnsChange ?b)) = 3"
    and lc: "length (gridTemplateColumns (handleColumnsChange ?c)) = 2"
    by (simp_all add: handleColumnsChange_def length_initializeCellWidths grid_of_def)
  have a: "gridTemplateColumns (handleColumnsChange ?a) ! 0 = Val (100 / 3 - 1)"
    "gridTemplateColumns (handleColumnsChange ?a) ! Suc 0 = Val (100 / 3 - 1)"
    "gridTemplateColumns (handleColumnsChange ?a) ! 2 = Val (100 / 3 - 1)"
    using initial_width_of_each_column [of ?a 0] initial_width_of_each_column [of ?a 1]
      initial_width_of_each_column [of ?a 2]
    by (simp_all add: grid_of_def col_def amended_width_def prior_width_def nonzero_def
        truthy_def array_get_def opt_minWidth_def default_share_def)
  have b: "gridTemplateColumns (handleColumnsChange ?b) ! 0 = Val 30"
    "gridTemplateColumns (handleColumnsChange ?b) ! Suc 0 = Val 25"
    "gridTemplateColumns (handleColumnsChange ?b) ! 2 = Val 20"
    using initial_width_of_each_column [of ?b 0] initial_width_of_each_column [of ?b 1]
      initial_width_of_each_column [of ?b 2]
    by (simp_all add: grid_of_def col_def amended_width_def prior_width_def nonzero_def
        truthy_def array_get_def opt_minWidth_def default_share_def
        pixelsToPercentOfWidth_def)
  have c: "gridTemplateColumns (handleColumnsChange ?c) ! 0 = Val 49"
    "gridTemplateColumns (handleColumnsChange ?c) ! Suc 0 = Val 49"
    using initial_width_of_each_column [of ?c 0] initial_width_of_each_column [of ?c 1]
    by (simp_all add: grid_of_def col_def amended_width_def prior_width_def nonzero_def
        truthy_def array_get_def opt_minWidth_def default_share_def)
  show ?thesis
    by (simp add: array_get_def la lb lc a b c)
qed

text \<open>
  The claim as stated fails in four ways. With prior widths \<open>[0, 49]\<close> and three
  columns, the last with \<open>minWidth = 0\<close>, the stored width \<open>0\<close> of column 0 is not reused
  and the set \<open>minWidth\<close> of column 2 is not converted: both get the default share. With
  the single prior width \<open>[50]\<close> and two columns, the width of column 0 is not reused. With
  no prior widths and the sparse columns \<open>[a, <hole>]\<close>, index 1 gets no width.
\<close>

theorem reused_width_counterexample:
  "claimed_width
     (grid_of [col ''a'' None, col ''b'' None, col ''c'' (Some 0)] [Val 0, Val 49] 1000) 0
     = 0 \<and>
   array_get (gridTemplateColumns (handleColumnsChange
     (grid_of [col ''a'' None, col ''b'' None, col ''c'' (Some 0)] [Val 0, Val 49] 1000))) 0
     = Some (100 / 3 - 1) \<and>
   claimed_width
     (grid_of [col ''a'' None, col ''b'' None, col ''c'' (Some 0)] [Val 0, Val 49] 1000) 2
     = 0 \<and>
   array_get (gridTemplateColumns (handleColumnsChange
     (grid_of [col ''a'' None, col ''b'' None, col ''c'' (Some 0)] [Val 0, Val 49] 1000))) 2
     = Some (100 / 3 - 1) \<and>
   claimed_width (grid_of [col ''a'' None, col ''b'' None] [Val 50] 1000) 0 = 50 \<and>
   array_get (gridTemplateColumns (handleColumnsChange
     (grid_of [col ''a'' None, col ''b'' None] [Val 50] 1000))) 0 = Some 49 \<and>
   claimed_width (grid_of [col ''a'' None, Hole] [] 1000) 1 = 49 \<and>
   array_get (gridTemplateColumns (handleColumnsChange
     (grid_of [col ''a'' None, Hole] [] 1000))) 1 = None"
  by (simp add: grid_of_def col_def handleColumnsChange_def initializeCellWidths_def
      js_map_def enumerate_eq_zip cellWidth_def claimed_width_def truthy_def array_get_def
      opt_minWidth_def default_share_def pixelsToPercentOfWidth_def upt_rec)

text \<open>
  Claim C6. The conversion from pixels to percent gives \<open>0\<close> for a grid of width \<open>0\<close>,
  and \<open>(px / gridWidthPx) * 100\<close> for any other width.
\<close>

theorem pixelsToPercentOfWidth_cases:
  "pixelsToPercentOfWidth px 0 = 0 \<and>
   (gridWidthPx \<noteq> 0 \<longrightarrow> pixelsToPercentOfWidth px gridWidthPx = (px / gridWidthPx) * 100)"
  by (simp add: pixelsToPercentOfWidth_def)

text \<open>Scenario C's conversion: 150 pixels of 1000 are 15 percent.\<close>

theorem pixelsToPercentOfWidth_cases_witness:
  "pixelsToPercentOfWidth 150 0 = 0 \<and> (1000::real) \<noteq> 0 \<and>
   pixelsToPercentOfWidth 150 1000 = 15"
  using pixelsToPercentOfWidth_cases [of 150 1000] by simp

section \<open>Resizing a column\<close>

lemma minWidth_or_60_floor:
  "(case m of Some x \<Rightarrow> x \<le> minWidth_or_60 m | None \<Rightarrow> minWidth_or_60 m = 60)"
  by (simp add: minWidth_or_60_def truthy_def split: option.splits)

lemma resize_unfold:
  "resize x0 x1 st =
     set_width (Some (pixelsToPercentOfWidth
        (resize_px (elem_minWidth (el st)) (offsetWidth (el st)) (x1 - x0))
        (fst (gridWidth (st\<lparr>el := (el st)\<lparr>resizing := True\<rparr>\<rparr>)))))
       (snd (gridWidth (st\<lparr>el := (el st)\<lparr>resizing := True\<rparr>\<rparr>)))"
  by (simp add: resize_def onResizePointerDown_def onPointerMove_def resize_px_def
      Let_def split_def algebra_simps)


text \<open>Once the pointer is up, a pointer move no longer resizes.\<close>

lemma onPointerMove_after_onPointerUp:
  "onPointerMove captured clientX (onPointerUp st) = onPointerUp st"
  by (simp add: onPointerMove_def onPointerUp_def split_def)

text \<open>\<open>firstUpdated\<close> leaves a column inside a grid with the width of its slot.\<close>

lemma firstUpdated_in_sync:
  assumes "grid st = Some g"
  shows "case grid (firstUpdated st) of
           Some g' \<Rightarrow> width (el (firstUpdated st)) =
                        array_get (gridTemplateColumns g') (index (el (firstUpdated st)))
         | None \<Rightarrow> False"
  using assms
  by (auto simp: firstUpdated_def set_width_def handleWidthChange_def writeSlot_def
      array_get_array_set)

text \<open>
  A resize never brings the element below the floor of its own \<open>minWidth\<close> property, or
  below 60 pixels when that property is unset.
\<close>

lemma resize_px_floor:
  "(case m of Some x \<Rightarrow> x \<le> resize_px m startWidthPx pointerDeltaPx
    | None \<Rightarrow> 60 \<le> resize_px m startWidthPx pointerDeltaPx)"
  using minWidth_or_60_floor [of m] by (auto simp: resize_px_def split: option.splits)

text \<open>
  Claim C8. Read by a column that has no enclosing grid, the grid width is \<open>0\<close> and a
  warning goes to the console. The read returns: the getter has no statement that can
  throw on this path, and its model has no exceptional outcome.
\<close>

theorem gridWidth_without_grid:
  assumes "grid st = None"
  shows "gridWidth st =
           (0, st\<lparr>console := console st @ [''DataGridColumn must be a child of DataGrid'']\<rparr>)"
  using assms by (simp add: gridWidth_def)

theorem gridWidth_without_grid_witness:
  "grid (column_in (column_of 0 None None 100) None) = None \<and>
   fst (gridWidth (column_in (column_of 0 None None 100) None)) = 0 \<and>
   console (snd (gridWidth (column_in (column_of 0 None None 100) None))) =
     [''DataGridColumn must be a child of DataGrid'']"
proof -
  have h: "grid (column_in (column_of 0 None None 100) None) = None"
    by (simp add: column_in_def)
  show ?thesis
    using h gridWidth_without_grid [OF h] by (simp add: column_in_def)
qed

text \<open>
  Claim C2 says that a resize never brings a column below its explicit \<open>minWidth\<close>. The
  code does not keep it. The grid binds only \<open>index\<close> on the element it renders for a
  column, so the \<open>minWidth\<close> of the \<open>Column\<close> never reaches the element, and the floor of
  a resize is 60 pixels. In a grid 1000 pixels wide whose first column is configured with
  \<open>minWidth = 200\<close>, the width initialisation gives that column 20 percent, 200 pixels;
  dragging its handle 200 pixels to the left stores 6 percent, 60 pixels, in the element
  and in slot 0 of the grid, where \<open>max(minWidth ?? 60, startWidthPx + pointerDeltaPx)\<close>
  is 200 pixels, 20 percent.
\<close>

theorem resize_below_column_minWidth:
  "opt_minWidth (array_get (columns minWidth_200_grid) 0) = Some 200 \<and>
   boundingWidth minWidth_200_grid = 1000 \<and>
   gridTemplateColumns minWidth_200_grid = [Val 20, Val 49] \<and>
   el minWidth_200_column =
     \<lparr>index = 0, elem_minWidth = None, width = Some 20, resizing = False, offsetWidth = 200\<rparr> \<and>
   width (el (resize 500 300 minWidth_200_column)) = Some 6 \<and>
   map_option gridTemplateColumns (grid (resize 500 300 minWidth_200_column)) =
     Some [Val 6, Val 49] \<and>
   pixelsToPercentOfWidth 60 1000 = 6 \<and>
   pixelsToPercentOfWidth (max 200 (200 + (300 - 500))) 1000 = 20"
proof -
  have g: "minWidth_200_grid =
      \<lparr>columns = [col ''a'' (Some 200), col ''b'' None], rows = [], reorderable = Some True,
       gridTemplateColumns = [Val 20, Val 49], boundingWidth = 1000,
       sortableColumns = None, sortableRows = None\<rparr>"
    by (simp add: minWidth_200_grid_def set_columns_def handleColumnsChange_def
        initializeCellWidths_def js_map_def enumerate_eq_zip upt_rec cellWidth_def truthy_def
        opt_minWidth_def col_def grid_of_def pixelsToPercentOfWidth_def)
  have c: "minWidth_200_column =
      \<lparr>el = \<lparr>index = 0, elem_minWidth = None, width = Some 20, resizing = False,
              offsetWidth = 200\<rparr>,
       grid = Some (minWidth_200_grid\<lparr>gridTemplateColumns := [Val 20, Val 49]\<rparr>),
       console = []\<rparr>"
    unfolding minWidth_200_column_def
    by (simp add: g firstUpdated_def column_in_def rendered_column_def array_get_def
        set_width_def handleWidthChange_def writeSlot_def spread_def array_set_def)
  have r: "resize 500 300 minWidth_200_column =
      \<lparr>el = \<lparr>index = 0, elem_minWidth = None, width = Some 6, resizing = True,
              offsetWidth = 200\<rparr>,
       grid = Some (minWidth_200_grid\<lparr>gridTemplateColumns := [Val 6, Val 49]\<rparr>),
       console = []\<rparr>"
    unfolding c
    by (simp add: g resize_unfold resize_px_def minWidth_or_60_def truthy_def gridWidth_def
        set_width_def handleWidthChange_def writeSlot_def spread_def array_set_def
        pixelsToPercentOfWidth_def)
  have m: "opt_minWidth (array_get (columns minWidth_200_grid) 0) = Some 200"
    by (simp add: g array_get_def col_def opt_minWidth_def)
  show ?thesis
    by (simp only: r m) (simp add: c g pixelsToPercentOfWidth_def)
qed



section \<open>The life of the coordinators\<close>









subsection \<open>No coordinator is lost\<close>











subsection \<open>Events while reordering is off\<close>






end
